theory Spec2Isabelle
  imports Main "HOL-Library.AList"
begin

section \<open>Values and exceptions\<close>

text \<open>
  An agent may hand any value to the environment, so actions are values of a small
  universe of Python values: \<open>None\<close>, booleans, integers, strings, and sequences of
  strings (the shape of the constructor arguments of the vacuum world).
\<close>

datatype pyval =
    PyNone
  | PyBool bool
  | PyInt int
  | PyStr string
  | PySeq "string list"

text \<open>
  A raised object, sorted by the classes that the handlers of \<open>run_experiment\<close> test:
  an instance of \<open>ValueError\<close>; a \<open>KeyError\<close> (what a failed dictionary lookup raises);
  any other instance of \<open>Exception\<close>; and an object that derives from \<open>BaseException\<close>
  but not from \<open>Exception\<close> (\<open>KeyboardInterrupt\<close>, \<open>SystemExit\<close>, \<open>GeneratorExit\<close>).
  The argument is the exception's \<open>args[0]\<close>.
\<close>

datatype exn =
    ValueError pyval
  | KeyError pyval
  | OtherException pyval
  | BaseExceptionOnly pyval

fun isinstance_ValueError :: "exn \<Rightarrow> bool" where
  "isinstance_ValueError (ValueError _) = True"
| "isinstance_ValueError _ = False"

fun isinstance_Exception :: "exn \<Rightarrow> bool" where
  "isinstance_Exception (BaseExceptionOnly _) = False"
| "isinstance_Exception _ = True"

section \<open>The reference environment: BasicVacuumWorld\<close>

definition DIRTY_VALUES :: "string list" where
  "DIRTY_VALUES = [''y'', ''yes'', ''t'', ''true'', ''dirty'']"

definition CLEAN_VALUES :: "string list" where
  "CLEAN_VALUES = [''n'', ''no'', ''f'', ''false'', ''clean'']"

definition locations :: "string list" where
  "locations = [''A'', ''B'']"

definition actions :: "pyval list" where
  "actions = [PyStr ''LEFT'', PyStr ''RIGHT'', PyStr ''SUCK'']"

definition MSG_BAD_DIRT_STATUS_STR :: "string \<Rightarrow> string" where
  "MSG_BAD_DIRT_STATUS_STR s = ''Invalid dirt status string: '' @ s"

text \<open>
  \<open>str.lower\<close> on the characters of a string. A string is a list of bytes here; the
  letters \<open>A\<close> to \<open>Z\<close> are mapped to \<open>a\<close> to \<open>z\<close> and every other byte is kept. Python
  also lowers letters outside ASCII, but none of them becomes a letter of the ten
  recognised tokens, so membership in \<open>DIRTY_VALUES\<close> and \<open>CLEAN_VALUES\<close> is the same.
\<close>

definition lower_char :: "char \<Rightarrow> char" where
  "lower_char c =
     (let n = (of_char c :: nat)
      in if 65 \<le> n \<and> n \<le> 90 then char_of (n + 32) else c)"

definition lower :: "string \<Rightarrow> string" where
  "lower s = map lower_char s"

text \<open>The attributes \<open>_agent_location\<close> and \<open>_dirt_status\<close> of the object. The
  dictionary is an association list in insertion order.\<close>

record BasicVacuumWorld =
  agent_location :: string
  dirt_status :: "(string \<times> bool) list"

text \<open>The dictionary returned by the property \<open>state\<close>.\<close>

record env_state =
  state_agent_location :: string
  state_dirt_status :: "(string \<times> bool) list"

text \<open>The dictionary returned by the property \<open>observable_state\<close>.\<close>

record observation =
  obs_agent_location :: string
  is_dirty :: bool

definition convert_to_dirt_status :: "string \<Rightarrow> exn + bool" where
  "convert_to_dirt_status string =
     (let string = lower string
      in if string \<in> set DIRTY_VALUES then Inr True
         else if string \<in> set CLEAN_VALUES then Inr False
         else Inl (ValueError (PyStr (MSG_BAD_DIRT_STATUS_STR string))))"

text \<open>
  \<open>map\<close> of the conversion over the tokens, consumed left to right by the dictionary
  comprehension: the first token that fails raises.
\<close>

fun convert_all :: "string list \<Rightarrow> exn + bool list" where
  "convert_all [] = Inr []"
| "convert_all (s # ss) =
     (case convert_to_dirt_status s of
        Inl e \<Rightarrow> Inl e
      | Inr b \<Rightarrow> (case convert_all ss of Inl e \<Rightarrow> Inl e | Inr bs \<Rightarrow> Inr (b # bs)))"

text \<open>
  \<open>__init__(agent_location, dirt_status)\<close>. The dictionary comprehension over
  \<open>zip(locations, ...)\<close> inserts the keys in order; \<open>locations\<close> has no duplicates.
\<close>

definition BasicVacuumWorld_init :: "string list \<Rightarrow> string list \<Rightarrow> exn + BasicVacuumWorld" where
  "BasicVacuumWorld_init agent_location_arg dirt_status_arg =
     (if length agent_location_arg \<noteq> 1 then Inl (ValueError (PySeq agent_location_arg))
      else let loc = hd agent_location_arg
      in if loc \<notin> set locations then Inl (ValueError (PyStr loc))
         else if length dirt_status_arg \<noteq> length locations
           then Inl (ValueError (PySeq dirt_status_arg))
         else (case convert_all dirt_status_arg of
                 Inl e \<Rightarrow> Inl e
               | Inr dirt_status_bools \<Rightarrow>
                   Inr \<lparr>agent_location = loc,
                        dirt_status = zip locations dirt_status_bools\<rparr>))"

definition default_agent_location :: "string list" where
  "default_agent_location = [''A'']"

definition default_dirt_status :: "string list" where
  "default_dirt_status = [''t'', ''t'']"

definition BasicVacuumWorld_state :: "BasicVacuumWorld \<Rightarrow> exn + env_state" where
  "BasicVacuumWorld_state self =
     Inr \<lparr>state_agent_location = agent_location self,
          state_dirt_status = dirt_status self\<rparr>"

text \<open>The lookup \<open>self._dirt_status[self._agent_location]\<close> raises \<open>KeyError\<close> on a
  missing key.\<close>

definition BasicVacuumWorld_observable_state :: "BasicVacuumWorld \<Rightarrow> exn + observation" where
  "BasicVacuumWorld_observable_state self =
     (case map_of (dirt_status self) (agent_location self) of
        None \<Rightarrow> Inl (KeyError (PyStr (agent_location self)))
      | Some d \<Rightarrow> Inr \<lparr>obs_agent_location = agent_location self, is_dirty = d\<rparr>)"

text \<open>
  \<open>update(action)\<close>: the exception raised, if any, and the object after the call.
\<close>

definition BasicVacuumWorld_update :: "BasicVacuumWorld \<Rightarrow> pyval \<Rightarrow> exn option \<times> BasicVacuumWorld" where
  "BasicVacuumWorld_update self action =
     (if action = PyStr ''SUCK''
        then (None, self\<lparr>dirt_status := AList.update (agent_location self) False (dirt_status self)\<rparr>)
      else if action = PyStr ''RIGHT'' then (None, self\<lparr>agent_location := ''B''\<rparr>)
      else if action = PyStr ''LEFT'' then (None, self\<lparr>agent_location := ''A''\<rparr>)
      else (Some (ValueError action), self))"

section \<open>The reference evaluator and agents\<close>

record CleanFloorEvaluator =
  score :: int

definition CleanFloorEvaluator_init :: CleanFloorEvaluator where
  "CleanFloorEvaluator_init = \<lparr>score = 0\<rparr>"

definition CleanFloorEvaluator_update :: "CleanFloorEvaluator \<Rightarrow> env_state \<Rightarrow> exn option \<times> CleanFloorEvaluator" where
  "CleanFloorEvaluator_update self st =
     (None, self\<lparr>score := score self + int (count_list (map snd (state_dirt_status st)) False)\<rparr>)"

text \<open>The agents have no attributes: their object is \<open>unit\<close>. \<open>RandomAgent.decide\<close> and
  \<open>RationalAgent.decide\<close> have a docstring as their whole body and return \<open>None\<close>.\<close>

definition SuckyAgent_decide :: "unit \<Rightarrow> 'obs \<Rightarrow> (exn + pyval) \<times> unit" where
  "SuckyAgent_decide self _ = (Inr (PyStr ''SUCK''), self)"

definition RandomAgent_decide :: "unit \<Rightarrow> 'obs \<Rightarrow> (exn + pyval) \<times> unit" where
  "RandomAgent_decide self _ = (Inr PyNone, self)"

definition RationalAgent_decide :: "unit \<Rightarrow> 'obs \<Rightarrow> (exn + pyval) \<times> unit" where
  "RationalAgent_decide self _ = (Inr PyNone, self)"

section \<open>The experiment runner\<close>

text \<open>
  The three collaborators are objects found by name at run time; the runner uses only
  their methods. A component is its methods as functions on the object's value: a read
  of a property returns a value or raises, a method call returns its result or the
  exception raised, paired with the object after the call.
\<close>

record ('env, 'ag, 'ev, 'obs, 'st) components =
  env_observable_state :: "'env \<Rightarrow> exn + 'obs"
  agent_decide :: "'ag \<Rightarrow> 'obs \<Rightarrow> (exn + pyval) \<times> 'ag"
  env_update :: "'env \<Rightarrow> pyval \<Rightarrow> exn option \<times> 'env"
  env_state :: "'env \<Rightarrow> exn + 'st"
  eval_update :: "'ev \<Rightarrow> 'st \<Rightarrow> exn option \<times> 'ev"

text \<open>The methods that the runner calls, in the order of the calls: a history kept
  beside the program's data, which no code reads.\<close>

datatype call = Decide | Update | Evaluate

text \<open>
  The objects during a run, the records written to the logger \<open>vacuum_world\<close> (step
  index and decision), and the history of calls.
\<close>

record ('env, 'ag, 'ev) sim =
  environment :: 'env
  agent :: 'ag
  evaluator :: 'ev
  decision_log :: "(nat \<times> pyval) list"
  calls :: "call list"

text \<open>
  What leaves \<open>run_experiment\<close> when it does not return: \<open>ExperimentError(component,
  cause)\<close>, or an exception that no handler intercepts, as it is. The run's ending is
  \<open>None\<close> when \<open>run_experiment\<close> returns and \<open>Some\<close> of what it raises otherwise.
\<close>

datatype raised =
    ExperimentError string exn
  | Propagated exn

text \<open>The handlers around \<open>agent.decide(environment.observable_state)\<close>, in their order.\<close>

definition handle_decide :: "exn \<Rightarrow> raised" where
  "handle_decide e =
     (if isinstance_ValueError e then ExperimentError ''environment'' e
      else if isinstance_Exception e then ExperimentError ''agent'' e
      else Propagated e)"

text \<open>The handlers around \<open>environment.update(decision)\<close>, in their order.\<close>

definition handle_update :: "exn \<Rightarrow> raised" where
  "handle_update e =
     (if isinstance_ValueError e then ExperimentError ''agent'' e
      else if isinstance_Exception e then ExperimentError ''environment'' e
      else Propagated e)"

text \<open>
  The body of the loop at step \<open>t\<close>: \<open>None\<close> when the body reaches its end, what
  leaves the run when something is raised. The read of \<open>environment.state\<close> and the call of
  \<open>evaluator.update\<close> are outside every \<open>try\<close>.
\<close>

definition loop_body ::
  "('env, 'ag, 'ev, 'obs, 'st) components \<Rightarrow> nat \<Rightarrow> ('env, 'ag, 'ev) sim
     \<Rightarrow> ('env, 'ag, 'ev) sim \<times> raised option" where
  "loop_body c t s =
     (case env_observable_state c (environment s) of
        Inl e \<Rightarrow> (s, Some (handle_decide e))
      | Inr obs \<Rightarrow>
          (case agent_decide c (agent s) obs of
             (Inl e, ag) \<Rightarrow> (s\<lparr>agent := ag, calls := calls s @ [Decide]\<rparr>, Some (handle_decide e))
           | (Inr decision, ag) \<Rightarrow>
               (let s1 = s\<lparr>agent := ag,
                           decision_log := decision_log s @ [(t, decision)],
                           calls := calls s @ [Decide, Update]\<rparr>
                in case env_update c (environment s1) decision of
                     (Some e, env) \<Rightarrow> (s1\<lparr>environment := env\<rparr>, Some (handle_update e))
                   | (None, env) \<Rightarrow>
                       (let s2 = s1\<lparr>environment := env\<rparr>
                        in case env_state c env of
                             Inl e \<Rightarrow> (s2, Some (Propagated e))
                           | Inr st \<Rightarrow>
                               (case eval_update c (evaluator s2) st of
                                  (r, ev) \<Rightarrow>
                                    (s2\<lparr>evaluator := ev, calls := calls s2 @ [Evaluate]\<rparr>,
                                     map_option Propagated r))))))"

text \<open>\<open>for t in range(...)\<close>: the body at each index in turn, until one of them ends the
  run.\<close>

fun for_loop ::
  "('env, 'ag, 'ev, 'obs, 'st) components \<Rightarrow> nat list \<Rightarrow> ('env, 'ag, 'ev) sim
     \<Rightarrow> ('env, 'ag, 'ev) sim \<times> raised option" where
  "for_loop c [] s = (s, None)"
| "for_loop c (t # ts) s =
     (case loop_body c t s of
        (s', Some r) \<Rightarrow> (s', Some r)
      | (s', None) \<Rightarrow> for_loop c ts s')"

definition start :: "'env \<Rightarrow> 'ag \<Rightarrow> 'ev \<Rightarrow> ('env, 'ag, 'ev) sim" where
  "start env ag ev =
     \<lparr>environment = env, agent = ag, evaluator = ev, decision_log = [], calls = []\<rparr>"

definition run_experiment ::
  "('env, 'ag, 'ev, 'obs, 'st) components \<Rightarrow> 'env \<Rightarrow> 'ag \<Rightarrow> 'ev
     \<Rightarrow> ('env, 'ag, 'ev) sim \<times> raised option" where
  "run_experiment c env ag ev = for_loop c [1..<1001] (start env ag ev)"

text \<open>The number of cycles that reached the call of the evaluator.\<close>

definition cycles :: "('env, 'ag, 'ev) sim \<Rightarrow> nat" where
  "cycles s = count_list (calls s) Evaluate"

section \<open>The host program\<close>

text \<open>The records that reach the root logger's handler.\<close>

datatype 'sc log_record =
    MSG_HELLO
  | MSG_AGENT_DECISION nat pyval
  | MSG_ENVIRONMENT_INIT_ERROR pyval
  | MSG_EXPERIMENT_ERROR string exn
  | MSG_COMPLETE
  | MSG_SCORE 'sc

text \<open>How \<open>main\<close> ends: it returns a value (\<open>None\<close> at the end of its body), or an
  exception leaves it.\<close>

datatype exit = Returned "int option" | Uncaught exn

text \<open>
  \<open>main\<close> from the point where the three classes are loaded. The agent and the
  evaluator are the objects their constructors give; the environment's constructor is
  called with the arguments of the command line and may raise. The records of the
  logger \<open>vacuum_world\<close> propagate to the root logger.
\<close>

definition main ::
  "('env, 'ag, 'ev, 'obs, 'st) components \<Rightarrow> ('args \<Rightarrow> exn + 'env) \<Rightarrow> ('ev \<Rightarrow> 'sc)
     \<Rightarrow> 'args \<Rightarrow> 'ag \<Rightarrow> 'ev \<Rightarrow> 'sc log_record list \<times> exit" where
  "main c environment_class evaluator_score environment_args ag ev =
     (case environment_class environment_args of
        Inl e \<Rightarrow>
          (if isinstance_ValueError e
             then ([MSG_HELLO, MSG_ENVIRONMENT_INIT_ERROR (case e of ValueError a \<Rightarrow> a | _ \<Rightarrow> PyNone)],
                   Returned (Some 1))
           else ([MSG_HELLO], Uncaught e))
      | Inr env \<Rightarrow>
          (case run_experiment c env ag ev of
             (s, r) \<Rightarrow>
               (let out = MSG_HELLO # map (\<lambda>(t, d). MSG_AGENT_DECISION t d) (decision_log s)
                in case r of
                     None \<Rightarrow>
                       (out @ [MSG_COMPLETE, MSG_SCORE (evaluator_score (evaluator s))], Returned None)
                   | Some (ExperimentError component cause) \<Rightarrow>
                       (out @ [MSG_EXPERIMENT_ERROR component cause,
                               MSG_SCORE (evaluator_score (evaluator s))], Returned None)
                   | Some (Propagated e) \<Rightarrow> (out, Uncaught e))))"

text \<open>The components of the repository.\<close>

definition vacuum_components ::
  "(unit \<Rightarrow> observation \<Rightarrow> (exn + pyval) \<times> unit)
     \<Rightarrow> (BasicVacuumWorld, unit, CleanFloorEvaluator, observation, env_state) components" where
  "vacuum_components decide =
     \<lparr>env_observable_state = BasicVacuumWorld_observable_state,
      agent_decide = decide,
      env_update = BasicVacuumWorld_update,
      env_state = BasicVacuumWorld_state,
      eval_update = CleanFloorEvaluator_update\<rparr>"

text \<open>\<open>environment_class(**environment_args)\<close> for the reference environment: the two
  keyword arguments, each a list of tokens from the command line.\<close>

definition BasicVacuumWorld_class :: "string list \<times> string list \<Rightarrow> exn + BasicVacuumWorld" where
  "BasicVacuumWorld_class environment_args =
     BasicVacuumWorld_init (fst environment_args) (snd environment_args)"

section \<open>Notions used by the properties\<close>

text \<open>The states of the reference environment that a program can reach: what the
  constructor returns, and what \<open>update\<close> leaves behind, whether it raises or not.\<close>

inductive reachable :: "BasicVacuumWorld \<Rightarrow> bool" where
  constructed:
    "BasicVacuumWorld_init agent_location_arg dirt_status_arg = Inr self \<Longrightarrow> reachable self"
| updated:
    "reachable self \<Longrightarrow> reachable (snd (BasicVacuumWorld_update self action))"

text \<open>The environment that the default arguments construct: the agent at \<open>A\<close>, both
  locations dirty.\<close>

definition both_dirty_at_A :: BasicVacuumWorld where
  "both_dirty_at_A = \<lparr>agent_location = ''A'', dirt_status = [(''A'', True), (''B'', True)]\<rparr>"

text \<open>Calling \<open>update\<close> of the evaluator once for each state of a sequence, in order.\<close>

fun CleanFloorEvaluator_update_all ::
  "CleanFloorEvaluator \<Rightarrow> env_state list \<Rightarrow> CleanFloorEvaluator" where
  "CleanFloorEvaluator_update_all self [] = self"
| "CleanFloorEvaluator_update_all self (st # sts) =
     CleanFloorEvaluator_update_all (snd (CleanFloorEvaluator_update self st)) sts"

text \<open>The number of entries of a state's \<open>dirt_status\<close> whose value is \<open>False\<close>.\<close>

definition clean_count :: "env_state \<Rightarrow> nat" where
  "clean_count st =
     length (filter (\<lambda>(location, has_dirt). has_dirt = False) (state_dirt_status st))"


text \<open>Fabricated collaborators: an agent whose \<open>decide\<close> raises a given exception, an
  environment whose \<open>update\<close> raises a given exception, and an environment whose
  \<open>update\<close> accepts every action and does nothing.\<close>

definition RaisingAgent_decide :: "exn \<Rightarrow> unit \<Rightarrow> 'obs \<Rightarrow> (exn + pyval) \<times> unit" where
  "RaisingAgent_decide e self _ = (Inl e, self)"

definition RaisingWorld_update :: "exn \<Rightarrow> BasicVacuumWorld \<Rightarrow> pyval \<Rightarrow> exn option \<times> BasicVacuumWorld" where
  "RaisingWorld_update e self action = (Some e, self)"

definition raising_world_components ::
  "exn \<Rightarrow> (BasicVacuumWorld, unit, CleanFloorEvaluator, observation, env_state) components" where
  "raising_world_components e =
     (vacuum_components SuckyAgent_decide)\<lparr>env_update := RaisingWorld_update e\<rparr>"


section \<open>Properties of the runner's loop\<close>

lemma loop_body_None:
  assumes "loop_body c t s = (s', None)"
  shows "calls s' = calls s @ [Decide, Update, Evaluate]"
    and "map fst (decision_log s') = map fst (decision_log s) @ [t]"
  using assms
  by (auto simp: loop_body_def Let_def split: sum.splits prod.splits option.splits)

lemma for_loop_append:
  "for_loop c (xs @ ys) s =
     (case for_loop c xs s of
        (s', None) \<Rightarrow> for_loop c ys s'
      | (s', Some r) \<Rightarrow> (s', Some r))"
  by (induction xs arbitrary: s) (auto split: prod.splits option.splits)

lemma for_loop_returns:
  "for_loop c ts s = (s', None) \<Longrightarrow>
     calls s' = calls s @ concat (replicate (length ts) [Decide, Update, Evaluate])
     \<and> map fst (decision_log s') = map fst (decision_log s) @ ts"
proof (induction ts arbitrary: s)
  case Nil
  then show ?case by simp
next
  case (Cons t ts)
  from Cons.prems obtain s1 where b: "loop_body c t s = (s1, None)"
    and r: "for_loop c ts s1 = (s', None)"
    by (auto split: prod.splits option.splits)
  from Cons.IH[OF r] loop_body_None[OF b] show ?case by simp
qed

lemma count_cycles: "count_list (concat (replicate n [Decide, Update, Evaluate])) Evaluate = n"
  by (induction n) auto

lemma for_loop_cycles:
  "for_loop c ts s = (s', None) \<Longrightarrow> cycles s' = cycles s + length ts"
  by (drule for_loop_returns) (simp add: cycles_def count_cycles)



lemma for_loop_step:
  assumes "for_loop c xs s0 = (s, None)" and "loop_body c t s = (s', Some r)"
  shows "for_loop c (xs @ t # ys) s0 = (s', Some r)"
  using assms by (simp add: for_loop_append)

lemma range_split:
  assumes "1 \<le> t" and "t \<le> 1000"
  shows "[1..<1001] = [1..<t] @ t # [Suc t..<1001]"
proof -
  from assms have "[1..<t + (1001 - t)] = [1..<t] @ [t..<t + (1001 - t)]"
    by (intro upt_add_eq_append) simp
  moreover from assms have "t + (1001 - t) = 1001" by simp
  moreover from assms have "[t..<1001] = t # [Suc t..<1001]"
    by (simp add: upt_conv_Cons)
  ultimately show ?thesis by simp
qed

lemma run_experiment_raises_at:
  assumes "1 \<le> t" and "t \<le> 1000"
    and "for_loop c [1..<t] (start env ag ev) = (s, None)"
    and "loop_body c t s = (s', Some r)"
  shows "run_experiment c env ag ev = (s', Some r)"
  unfolding run_experiment_def range_split[OF assms(1,2)]
  using assms(3,4) by (rule for_loop_step)

lemma cycles_before:
  assumes "1 \<le> t" and "for_loop c [1..<t] (start env ag ev) = (s, None)"
  shows "cycles s = t - 1"
  using for_loop_cycles[OF assms(2)] by (simp add: cycles_def start_def)

lemma count_Evaluate_before:
  assumes "1 \<le> t" and "for_loop c [1..<t] (start env ag ev) = (s, None)"
  shows "count_list (calls s) Evaluate = t - 1"
  using cycles_before[OF assms] by (simp add: cycles_def)

lemma loop_body_decide_raises:
  assumes "env_observable_state c (environment s) = Inr obs"
    and "agent_decide c (agent s) obs = (Inl e, ag)"
  shows "loop_body c t s = (s\<lparr>agent := ag, calls := calls s @ [Decide]\<rparr>, Some (handle_decide e))"
  using assms by (simp add: loop_body_def)

lemma loop_body_update_raises:
  assumes "env_observable_state c (environment s) = Inr obs"
    and "agent_decide c (agent s) obs = (Inr a, ag)"
    and "env_update c (environment s) a = (Some e, env)"
  shows "loop_body c t s =
           (s\<lparr>agent := ag, decision_log := decision_log s @ [(t, a)],
              calls := calls s @ [Decide, Update], environment := env\<rparr>,
            Some (handle_update e))"
  using assms by (simp add: loop_body_def)

lemma run_experiment_decide_raises:
  assumes "1 \<le> t" and "t \<le> 1000"
    and "for_loop c [1..<t] (start env ag ev) = (s, None)"
    and "env_observable_state c (environment s) = Inr obs"
    and "agent_decide c (agent s) obs = (Inl e, ag')"
  shows "run_experiment c env ag ev
           = (s\<lparr>agent := ag', calls := calls s @ [Decide]\<rparr>, Some (handle_decide e))"
  using assms(1-3) loop_body_decide_raises[OF assms(4,5)]
  by (rule run_experiment_raises_at)

lemma run_experiment_update_raises:
  assumes "1 \<le> t" and "t \<le> 1000"
    and "for_loop c [1..<t] (start env ag ev) = (s, None)"
    and "env_observable_state c (environment s) = Inr obs"
    and "agent_decide c (agent s) obs = (Inr action, ag')"
    and "env_update c (environment s) action = (Some e, env')"
  shows "run_experiment c env ag ev
           = (s\<lparr>agent := ag', decision_log := decision_log s @ [(t, action)],
                calls := calls s @ [Decide, Update], environment := env'\<rparr>,
              Some (handle_update e))"
  using assms(1-3) loop_body_update_raises[OF assms(4-6)]
  by (rule run_experiment_raises_at)

lemma no_steps_before_first:
  "for_loop c [1..<1] (start env ag ev) = (start env ag ev, None)"
  by simp



section \<open>Properties of the reference environment and evaluator\<close>

lemma count_list_False:
  "count_list (map snd d) False = length (filter (\<lambda>(location, has_dirt). has_dirt = False) d)"
  by (induction d) auto

lemma update_all_score:
  "score (CleanFloorEvaluator_update_all self sts) = score self + (\<Sum>st\<leftarrow>sts. int (clean_count st))"
  by (induction sts arbitrary: self)
     (simp_all add: CleanFloorEvaluator_update_def clean_count_def count_list_False)

lemma convert_all_length: "convert_all ds = Inr bs \<Longrightarrow> length bs = length ds"
  by (induction ds arbitrary: bs) (auto split: sum.splits)

lemma init_shape:
  assumes "BasicVacuumWorld_init a d = Inr self"
  shows "agent_location self \<in> set locations \<and> map fst (dirt_status self) = locations"
proof -
  from assms obtain bs where bs: "convert_all d = Inr bs" and len: "length d = length locations"
    and self: "self = \<lparr>agent_location = hd a, dirt_status = zip locations bs\<rparr>"
    and loc: "hd a \<in> set locations"
    by (auto simp: BasicVacuumWorld_init_def Let_def split: if_splits sum.splits)
  from convert_all_length[OF bs] len have "length bs = length locations" by simp
  with self loc show ?thesis by simp
qed

lemma update_shape:
  assumes "agent_location self \<in> set locations \<and> map fst (dirt_status self) = locations"
  shows "agent_location (snd (BasicVacuumWorld_update self action)) \<in> set locations
     \<and> map fst (dirt_status (snd (BasicVacuumWorld_update self action))) = locations"
  using assms by (auto simp: BasicVacuumWorld_update_def update_keys locations_def)

lemma reachable_shape:
  "reachable self \<Longrightarrow> agent_location self \<in> set locations \<and> map fst (dirt_status self) = locations"
proof (induction rule: reachable.induct)
  case (constructed a d self)
  then show ?case by (rule init_shape)
next
  case (updated self action)
  from update_shape[OF updated.IH] show ?case .
qed

lemma reachable_observable:
  assumes "reachable self"
  shows "\<exists>d. map_of (dirt_status self) (agent_location self) = Some d
     \<and> BasicVacuumWorld_observable_state self
         = Inr \<lparr>obs_agent_location = agent_location self, is_dirty = d\<rparr>"
proof -
  from reachable_shape[OF assms] have "agent_location self \<in> fst ` set (dirt_status self)"
    by (metis set_map)
  then obtain d where "map_of (dirt_status self) (agent_location self) = Some d"
    by (metis domD dom_map_of_conv_image_fst)
  then show ?thesis by (simp add: BasicVacuumWorld_observable_state_def)
qed

lemma update_rejects:
  "action \<notin> set actions \<Longrightarrow> BasicVacuumWorld_update self action = (Some (ValueError action), self)"
  by (simp add: BasicVacuumWorld_update_def actions_def)

lemma update_raises_only_outside:
  "fst (BasicVacuumWorld_update self action) \<noteq> None \<Longrightarrow> action \<notin> set actions"
  by (auto simp: BasicVacuumWorld_update_def actions_def split: if_splits)

lemma convert_to_dirt_status_bad:
  "lower token \<notin> set DIRTY_VALUES \<union> set CLEAN_VALUES \<Longrightarrow>
     convert_to_dirt_status token = Inl (ValueError (PyStr (MSG_BAD_DIRT_STATUS_STR (lower token))))"
  by (simp add: convert_to_dirt_status_def Let_def)

lemma convert_to_dirt_status_raises_ValueError:
  "convert_to_dirt_status token = Inl e \<Longrightarrow> \<exists>a. e = ValueError a"
  by (auto simp: convert_to_dirt_status_def Let_def split: if_splits)

lemma convert_all_raises_ValueError:
  "convert_all tokens = Inl e \<Longrightarrow> \<exists>a. e = ValueError a"
  by (induction tokens arbitrary: e)
     (auto split: sum.splits dest: convert_to_dirt_status_raises_ValueError)

lemma convert_all_bad:
  "\<exists>token\<in>set tokens. lower token \<notin> set DIRTY_VALUES \<union> set CLEAN_VALUES \<Longrightarrow>
     \<exists>a. convert_all tokens = Inl (ValueError a)"
proof (induction tokens)
  case Nil
  then show ?case by simp
next
  case (Cons tok tokens)
  show ?case
  proof (cases "convert_to_dirt_status tok")
    case (Inl e)
    with convert_to_dirt_status_raises_ValueError[OF Inl] show ?thesis by auto
  next
    case (Inr b)
    then have "\<not> lower tok \<notin> set DIRTY_VALUES \<union> set CLEAN_VALUES"
      using convert_to_dirt_status_bad[of tok] by auto
    with Cons.prems have "\<exists>token\<in>set tokens. lower token \<notin> set DIRTY_VALUES \<union> set CLEAN_VALUES"
      by auto
    from Cons.IH[OF this] Inr show ?thesis by auto
  qed
qed

lemma init_raises_ValueError:
  "BasicVacuumWorld_init a d = Inl e \<Longrightarrow> \<exists>v. e = ValueError v"
  by (auto simp: BasicVacuumWorld_init_def Let_def split: if_splits sum.splits
      dest: convert_all_raises_ValueError)

lemma init_bad:
  assumes "agent_location_arg \<notin> {[''A''], [''B'']}
     \<or> (\<exists>token\<in>set dirt_status_arg. lower token \<notin> set DIRTY_VALUES \<union> set CLEAN_VALUES)"
  shows "\<exists>a. BasicVacuumWorld_init agent_location_arg dirt_status_arg = Inl (ValueError a)"
proof (cases "BasicVacuumWorld_init agent_location_arg dirt_status_arg")
  case (Inl e)
  with init_raises_ValueError[OF Inl] show ?thesis by auto
next
  case (Inr self)
  then have len: "length agent_location_arg = 1" and loc: "hd agent_location_arg \<in> set locations"
    and conv: "\<exists>bs. convert_all dirt_status_arg = Inr bs"
    by (auto simp: BasicVacuumWorld_init_def Let_def split: if_splits sum.splits)
  from len obtain x where x: "agent_location_arg = [x]"
    by (cases agent_location_arg) auto
  with loc have "agent_location_arg \<in> {[''A''], [''B'']}" by (auto simp: locations_def)
  with assms have "\<exists>token\<in>set dirt_status_arg. lower token \<notin> set DIRTY_VALUES \<union> set CLEAN_VALUES"
    by blast
  from convert_all_bad[OF this] conv show ?thesis by auto
qed

lemma default_construction:
  "BasicVacuumWorld_init default_agent_location default_dirt_status = Inr both_dirty_at_A"
  by (simp add: BasicVacuumWorld_init_def default_agent_location_def default_dirt_status_def
      both_dirty_at_A_def locations_def convert_to_dirt_status_def lower_def lower_char_def
      DIRTY_VALUES_def Let_def)

lemma lower_Maybe: "lower ''Maybe'' = ''maybe''"
  by code_simp

lemma init_C: "BasicVacuumWorld_init [''C''] default_dirt_status = Inl (ValueError (PyStr ''C''))"
  by (simp add: BasicVacuumWorld_init_def locations_def)

lemma init_Maybe:
  "BasicVacuumWorld_init [''B''] [''DIRTY'', ''Maybe'']
     = Inl (ValueError (PyStr ''Invalid dirt status string: maybe''))"
  by code_simp

section \<open>Runs of the repository's components\<close>

lemma first_step_observation:
  "env_observable_state (vacuum_components decide)
      (environment (start both_dirty_at_A () CleanFloorEvaluator_init))
     = Inr \<lparr>obs_agent_location = ''A'', is_dirty = True\<rparr>"
  "env_observable_state (raising_world_components e)
      (environment (start both_dirty_at_A () CleanFloorEvaluator_init))
     = Inr \<lparr>obs_agent_location = ''A'', is_dirty = True\<rparr>"
  by (simp_all add: vacuum_components_def raising_world_components_def start_def
      both_dirty_at_A_def BasicVacuumWorld_observable_state_def)

lemma raising_world_first_step:
  "agent_decide (raising_world_components e)
      (agent (start both_dirty_at_A () CleanFloorEvaluator_init))
      \<lparr>obs_agent_location = ''A'', is_dirty = True\<rparr> = (Inr (PyStr ''SUCK''), ())"
  "env_update (raising_world_components e)
      (environment (start both_dirty_at_A () CleanFloorEvaluator_init)) (PyStr ''SUCK'')
     = (Some e, both_dirty_at_A)"
  by (simp_all add: raising_world_components_def vacuum_components_def SuckyAgent_decide_def
      RaisingWorld_update_def start_def)

lemma random_agent_run:
  "run_experiment (vacuum_components RandomAgent_decide) both_dirty_at_A () CleanFloorEvaluator_init
     = (\<lparr>environment = both_dirty_at_A, agent = (), evaluator = CleanFloorEvaluator_init,
          decision_log = [(1, PyNone)], calls = [Decide, Update]\<rparr>,
        Some (ExperimentError ''agent'' (ValueError PyNone)))"
proof -
  have d: "agent_decide (vacuum_components RandomAgent_decide)
      (agent (start both_dirty_at_A () CleanFloorEvaluator_init))
      \<lparr>obs_agent_location = ''A'', is_dirty = True\<rparr> = (Inr PyNone, ())"
    by (simp add: vacuum_components_def RandomAgent_decide_def)
  have u: "env_update (vacuum_components RandomAgent_decide)
      (environment (start both_dirty_at_A () CleanFloorEvaluator_init)) PyNone
     = (Some (ValueError PyNone), both_dirty_at_A)"
    by (simp add: vacuum_components_def BasicVacuumWorld_update_def start_def)
  from run_experiment_update_raises[OF _ _ no_steps_before_first first_step_observation(1) d u]
  show ?thesis by (simp add: handle_update_def start_def)
qed

lemma sucky_body:
  assumes "environment s = \<lparr>agent_location = ''A'', dirt_status = [(''A'', d), (''B'', True)]\<rparr>"
  shows "\<exists>s'. loop_body (vacuum_components SuckyAgent_decide) t s = (s', None)
     \<and> environment s' = \<lparr>agent_location = ''A'', dirt_status = [(''A'', False), (''B'', True)]\<rparr>
     \<and> score (evaluator s') = score (evaluator s) + 1"
  using assms
  by (simp add: loop_body_def vacuum_components_def SuckyAgent_decide_def
      BasicVacuumWorld_observable_state_def BasicVacuumWorld_update_def
      BasicVacuumWorld_state_def CleanFloorEvaluator_update_def)

lemma sucky_loop:
  assumes "environment s = \<lparr>agent_location = ''A'', dirt_status = [(''A'', d), (''B'', True)]\<rparr>"
    and "ts \<noteq> []"
  shows "\<exists>s'. for_loop (vacuum_components SuckyAgent_decide) ts s = (s', None)
     \<and> environment s' = \<lparr>agent_location = ''A'', dirt_status = [(''A'', False), (''B'', True)]\<rparr>
     \<and> score (evaluator s') = score (evaluator s) + int (length ts)"
  using assms
proof (induction ts arbitrary: s d)
  case Nil
  then show ?case by simp
next
  case (Cons t ts)
  from sucky_body[OF Cons.prems(1)] obtain s1
    where b: "loop_body (vacuum_components SuckyAgent_decide) t s = (s1, None)"
      and e: "environment s1 = \<lparr>agent_location = ''A'', dirt_status = [(''A'', False), (''B'', True)]\<rparr>"
      and sc: "score (evaluator s1) = score (evaluator s) + 1"
    by blast
  show ?case
  proof (cases "ts = []")
    case True
    with b e sc show ?thesis by simp
  next
    case False
    from Cons.IH[OF e False] obtain s' where
      "for_loop (vacuum_components SuckyAgent_decide) ts s1 = (s', None)"
      "environment s' = \<lparr>agent_location = ''A'', dirt_status = [(''A'', False), (''B'', True)]\<rparr>"
      "score (evaluator s') = score (evaluator s1) + int (length ts)"
      by blast
    with b sc show ?thesis by simp
  qed
qed

lemma sucky_run:
  "\<exists>s'. run_experiment (vacuum_components SuckyAgent_decide) both_dirty_at_A () CleanFloorEvaluator_init
           = (s', None)
     \<and> environment s' = \<lparr>agent_location = ''A'', dirt_status = [(''A'', False), (''B'', True)]\<rparr>
     \<and> score (evaluator s') = 1000"
proof -
  have "environment (start both_dirty_at_A () CleanFloorEvaluator_init)
      = \<lparr>agent_location = ''A'', dirt_status = [(''A'', True), (''B'', True)]\<rparr>"
    by (simp add: start_def both_dirty_at_A_def)
  moreover have "[1..<1001] \<noteq> []" by simp
  ultimately obtain s' where
    "for_loop (vacuum_components SuckyAgent_decide) [1..<1001]
        (start both_dirty_at_A () CleanFloorEvaluator_init) = (s', None)"
    "environment s' = \<lparr>agent_location = ''A'', dirt_status = [(''A'', False), (''B'', True)]\<rparr>"
    "score (evaluator s') = score (evaluator (start both_dirty_at_A () CleanFloorEvaluator_init))
        + int (length [1..<1001])"
    using sucky_loop by blast
  then show ?thesis
    by (simp add: run_experiment_def start_def CleanFloorEvaluator_init_def)
qed

lemma sucky_steps:
  assumes "1 \<le> n"
  shows "\<exists>s'. for_loop (vacuum_components SuckyAgent_decide) [1..<Suc n]
              (start both_dirty_at_A () CleanFloorEvaluator_init) = (s', None)
     \<and> environment s' = \<lparr>agent_location = ''A'', dirt_status = [(''A'', False), (''B'', True)]\<rparr>
     \<and> score (evaluator s') = int n"
proof -
  have "environment (start both_dirty_at_A () CleanFloorEvaluator_init)
      = \<lparr>agent_location = ''A'', dirt_status = [(''A'', True), (''B'', True)]\<rparr>"
    by (simp add: start_def both_dirty_at_A_def)
  moreover from assms have "[1..<Suc n] \<noteq> []" by simp
  ultimately obtain s' where
    "for_loop (vacuum_components SuckyAgent_decide) [1..<Suc n]
        (start both_dirty_at_A () CleanFloorEvaluator_init) = (s', None)"
    "environment s' = \<lparr>agent_location = ''A'', dirt_status = [(''A'', False), (''B'', True)]\<rparr>"
    "score (evaluator s') = score (evaluator (start both_dirty_at_A () CleanFloorEvaluator_init))
        + int (length [1..<Suc n])"
    using sucky_loop by blast
  then show ?thesis
    by (simp add: start_def CleanFloorEvaluator_init_def)
qed

section \<open>The claims\<close>

text \<open>
  C1, as amended. Let the steps before step \<open>t\<close> have run to their end, and let
  \<open>decide\<close> raise \<open>e\<close> at step \<open>t\<close>. If \<open>e\<close> is a \<open>ValueError\<close>, the run ends with
  \<open>ExperimentError\<close> for the component \<open>environment\<close>; if \<open>e\<close> is any other instance of
  \<open>Exception\<close>, it ends with \<open>ExperimentError\<close> for the component \<open>agent\<close>; if \<open>e\<close> is not
  an instance of \<open>Exception\<close>, it leaves the run as it is, attributed to no component. In
  every case no further step runs: the objects are those of the start of step \<open>t\<close>, but
  for what \<open>decide\<close> did to the agent, nothing is logged at step \<open>t\<close>, and \<open>t - 1\<close> cycles
  have reached the evaluator.
\<close>

theorem decide_fault_classification:
  assumes "1 \<le> t" and "t \<le> 1000"
    and "for_loop c [1..<t] (start env ag ev) = (s, None)"
    and "env_observable_state c (environment s) = Inr obs"
    and "agent_decide c (agent s) obs = (Inl e, ag')"
  shows "(isinstance_ValueError e \<longrightarrow>
            snd (run_experiment c env ag ev) = Some (ExperimentError ''environment'' e))
     \<and> (\<not> isinstance_ValueError e \<and> isinstance_Exception e \<longrightarrow>
            snd (run_experiment c env ag ev) = Some (ExperimentError ''agent'' e))
     \<and> (\<not> isinstance_Exception e \<longrightarrow>
            snd (run_experiment c env ag ev) = Some (Propagated e))
     \<and> fst (run_experiment c env ag ev) = s\<lparr>agent := ag', calls := calls s @ [Decide]\<rparr>
     \<and> cycles (fst (run_experiment c env ag ev)) = t - 1"
proof -
  have v: "isinstance_ValueError e \<Longrightarrow> isinstance_Exception e" by (cases e) simp_all
  from run_experiment_decide_raises[OF assms] count_Evaluate_before[OF assms(1,3)] v
  show ?thesis by (auto simp: handle_decide_def cycles_def)
qed

theorem decide_fault_classification_witness:
  "snd (run_experiment (vacuum_components (RaisingAgent_decide (ValueError (PyStr ''bad observation''))))
          both_dirty_at_A () CleanFloorEvaluator_init)
     = Some (ExperimentError ''environment'' (ValueError (PyStr ''bad observation'')))
   \<and> snd (run_experiment (vacuum_components (RaisingAgent_decide (OtherException (PyStr ''broken''))))
          both_dirty_at_A () CleanFloorEvaluator_init)
     = Some (ExperimentError ''agent'' (OtherException (PyStr ''broken'')))
   \<and> cycles (fst (run_experiment (vacuum_components (RaisingAgent_decide (OtherException (PyStr ''broken''))))
          both_dirty_at_A () CleanFloorEvaluator_init)) = 0"
proof -
  have o: "env_observable_state (vacuum_components (RaisingAgent_decide e))
             (environment (start both_dirty_at_A () CleanFloorEvaluator_init))
           = Inr \<lparr>obs_agent_location = ''A'', is_dirty = True\<rparr>" for e
    by (simp add: vacuum_components_def start_def both_dirty_at_A_def
        BasicVacuumWorld_observable_state_def)
  have d: "agent_decide (vacuum_components (RaisingAgent_decide e))
             (agent (start both_dirty_at_A () CleanFloorEvaluator_init))
             \<lparr>obs_agent_location = ''A'', is_dirty = True\<rparr> = (Inl e, ())" for e
    by (simp add: vacuum_components_def RaisingAgent_decide_def)
  have l: "for_loop (vacuum_components (RaisingAgent_decide e)) [1..<1]
             (start both_dirty_at_A () CleanFloorEvaluator_init)
           = (start both_dirty_at_A () CleanFloorEvaluator_init, None)" for e
    by simp
  from decide_fault_classification[OF _ _ l o d, of "ValueError (PyStr ''bad observation'')"]
    decide_fault_classification[OF _ _ l o d, of "OtherException (PyStr ''broken'')"]
  show ?thesis by (simp add: cycles_def start_def)
qed

text \<open>
  The claim as stated fails for an exception that is not an instance of \<open>Exception\<close>: an
  agent whose \<open>decide\<close> raises \<open>KeyboardInterrupt\<close> at the first step ends the run with
  that exception itself, and no fault is attributed to the agent.
\<close>

theorem decide_fault_counterexample:
  "fst (RaisingAgent_decide (BaseExceptionOnly (PyStr ''KeyboardInterrupt'')) ()
          \<lparr>obs_agent_location = ''A'', is_dirty = True\<rparr>)
     = Inl (BaseExceptionOnly (PyStr ''KeyboardInterrupt''))
   \<and> snd (run_experiment
          (vacuum_components (RaisingAgent_decide (BaseExceptionOnly (PyStr ''KeyboardInterrupt''))))
          both_dirty_at_A () CleanFloorEvaluator_init)
     = Some (Propagated (BaseExceptionOnly (PyStr ''KeyboardInterrupt'')))
   \<and> snd (run_experiment
          (vacuum_components (RaisingAgent_decide (BaseExceptionOnly (PyStr ''KeyboardInterrupt''))))
          both_dirty_at_A () CleanFloorEvaluator_init)
     \<noteq> Some (ExperimentError ''agent'' (BaseExceptionOnly (PyStr ''KeyboardInterrupt'')))"
proof -
  have o: "env_observable_state (vacuum_components (RaisingAgent_decide e))
             (environment (start both_dirty_at_A () CleanFloorEvaluator_init))
           = Inr \<lparr>obs_agent_location = ''A'', is_dirty = True\<rparr>" for e
    by (simp add: vacuum_components_def start_def both_dirty_at_A_def
        BasicVacuumWorld_observable_state_def)
  have d: "agent_decide (vacuum_components (RaisingAgent_decide e))
             (agent (start both_dirty_at_A () CleanFloorEvaluator_init))
             \<lparr>obs_agent_location = ''A'', is_dirty = True\<rparr> = (Inl e, ())" for e
    by (simp add: vacuum_components_def RaisingAgent_decide_def)
  have l: "for_loop (vacuum_components (RaisingAgent_decide e)) [1..<1]
             (start both_dirty_at_A () CleanFloorEvaluator_init)
           = (start both_dirty_at_A () CleanFloorEvaluator_init, None)" for e
    by simp
  from run_experiment_decide_raises[OF _ _ l o d, of "BaseExceptionOnly (PyStr ''KeyboardInterrupt'')"]
  show ?thesis by (simp add: handle_decide_def RaisingAgent_decide_def)
qed

text \<open>
  C2, as amended. \<open>BasicVacuumWorld.update\<close> raises \<open>ValueError\<close> of the action, and
  leaves the object unchanged, for every action outside \<open>LEFT\<close>, \<open>RIGHT\<close>, \<open>SUCK\<close>. When
  the steps before step \<open>t\<close> have run to their end and the agent decides on such an action
  at step \<open>t\<close> in the reference environment, the run ends at that step with
  \<open>ExperimentError\<close> for the component \<open>agent\<close>, after \<open>t - 1\<close> cycles, fewer than 1000.
  For any environment whose \<open>update\<close> raises \<open>e\<close> at step \<open>t\<close>: a \<open>ValueError\<close> is
  attributed to the agent, any other instance of \<open>Exception\<close> to the environment, and an
  exception that is not an instance of \<open>Exception\<close> leaves the run as it is.
\<close>

theorem update_fault_classification:
  "(action \<notin> set actions \<longrightarrow>
      BasicVacuumWorld_update self action = (Some (ValueError action), self))
   \<and> (1 \<le> t \<and> t \<le> 1000
        \<and> for_loop c [1..<t] (start env ag ev) = (s, None)
        \<and> env_observable_state c (environment s) = Inr obs
        \<and> agent_decide c (agent s) obs = (Inr decision, ag')
        \<and> env_update c = BasicVacuumWorld_update
        \<and> decision \<notin> set actions \<longrightarrow>
      run_experiment c env ag ev
        = (s\<lparr>agent := ag', decision_log := decision_log s @ [(t, decision)],
             calls := calls s @ [Decide, Update]\<rparr>,
           Some (ExperimentError ''agent'' (ValueError decision)))
      \<and> cycles (fst (run_experiment c env ag ev)) = t - 1
      \<and> cycles (fst (run_experiment c env ag ev)) < 1000)
   \<and> (1 \<le> t2 \<and> t2 \<le> 1000
        \<and> for_loop c2 [1..<t2] (start env2 ag2 ev2) = (s2, None)
        \<and> env_observable_state c2 (environment s2) = Inr obs2
        \<and> agent_decide c2 (agent s2) obs2 = (Inr decision2, ag2')
        \<and> env_update c2 (environment s2) decision2 = (Some e, env2') \<longrightarrow>
      (isinstance_ValueError e \<longrightarrow>
         snd (run_experiment c2 env2 ag2 ev2) = Some (ExperimentError ''agent'' e))
      \<and> (\<not> isinstance_ValueError e \<and> isinstance_Exception e \<longrightarrow>
         snd (run_experiment c2 env2 ag2 ev2) = Some (ExperimentError ''environment'' e))
      \<and> (\<not> isinstance_Exception e \<longrightarrow>
         snd (run_experiment c2 env2 ag2 ev2) = Some (Propagated e))
      \<and> cycles (fst (run_experiment c2 env2 ag2 ev2)) = t2 - 1)"
proof (intro conjI impI)
  assume "action \<notin> set actions"
  then show "BasicVacuumWorld_update self action = (Some (ValueError action), self)"
    by (rule update_rejects)
next
  assume a: "1 \<le> t \<and> t \<le> 1000
        \<and> for_loop c [1..<t] (start env ag ev) = (s, None)
        \<and> env_observable_state c (environment s) = Inr obs
        \<and> agent_decide c (agent s) obs = (Inr decision, ag')
        \<and> env_update c = BasicVacuumWorld_update
        \<and> decision \<notin> set actions"
  then have t: "1 \<le> t" "t \<le> 1000"
    and l: "for_loop c [1..<t] (start env ag ev) = (s, None)"
    and o: "env_observable_state c (environment s) = Inr obs"
    and d: "agent_decide c (agent s) obs = (Inr decision, ag')"
    by simp_all
  from a have u: "env_update c (environment s) decision = (Some (ValueError decision), environment s)"
    by (simp add: update_rejects)
  from run_experiment_update_raises[OF t l o d u]
  show r: "run_experiment c env ag ev
        = (s\<lparr>agent := ag', decision_log := decision_log s @ [(t, decision)],
             calls := calls s @ [Decide, Update]\<rparr>,
           Some (ExperimentError ''agent'' (ValueError decision)))"
    by (simp add: handle_update_def)
  from count_Evaluate_before[OF t(1) l]
  show n: "cycles (fst (run_experiment c env ag ev)) = t - 1"
    by (simp add: r cycles_def)
  from n t show "cycles (fst (run_experiment c env ag ev)) < 1000" by simp
next
  assume a: "1 \<le> t2 \<and> t2 \<le> 1000
        \<and> for_loop c2 [1..<t2] (start env2 ag2 ev2) = (s2, None)
        \<and> env_observable_state c2 (environment s2) = Inr obs2
        \<and> agent_decide c2 (agent s2) obs2 = (Inr decision2, ag2')
        \<and> env_update c2 (environment s2) decision2 = (Some e, env2')"
  then have t: "1 \<le> t2" "t2 \<le> 1000"
    and l: "for_loop c2 [1..<t2] (start env2 ag2 ev2) = (s2, None)"
    and o: "env_observable_state c2 (environment s2) = Inr obs2"
    and d: "agent_decide c2 (agent s2) obs2 = (Inr decision2, ag2')"
    and u: "env_update c2 (environment s2) decision2 = (Some e, env2')"
    by simp_all
  note r = run_experiment_update_raises[OF t l o d u]
  have v: "isinstance_ValueError e \<Longrightarrow> isinstance_Exception e" by (cases e) simp_all
  {
    assume "isinstance_ValueError e"
    with r show "snd (run_experiment c2 env2 ag2 ev2) = Some (ExperimentError ''agent'' e)"
      by (simp add: handle_update_def)
  }
  {
    assume "\<not> isinstance_ValueError e \<and> isinstance_Exception e"
    with r show "snd (run_experiment c2 env2 ag2 ev2) = Some (ExperimentError ''environment'' e)"
      by (simp add: handle_update_def)
  }
  {
    assume "\<not> isinstance_Exception e"
    with r v show "snd (run_experiment c2 env2 ag2 ev2) = Some (Propagated e)"
      by (auto simp: handle_update_def)
  }
  from count_Evaluate_before[OF t(1) l]
  show "cycles (fst (run_experiment c2 env2 ag2 ev2)) = t2 - 1"
    by (simp add: r cycles_def)
qed

theorem update_fault_classification_witness:
  "PyNone \<notin> set actions
   \<and> BasicVacuumWorld_update both_dirty_at_A PyNone = (Some (ValueError PyNone), both_dirty_at_A)
   \<and> snd (run_experiment (vacuum_components RandomAgent_decide) both_dirty_at_A ()
            CleanFloorEvaluator_init)
       = Some (ExperimentError ''agent'' (ValueError PyNone))
   \<and> cycles (fst (run_experiment (vacuum_components RandomAgent_decide) both_dirty_at_A ()
            CleanFloorEvaluator_init)) = 0
   \<and> snd (run_experiment (raising_world_components (OtherException (PyStr ''broken'')))
            both_dirty_at_A () CleanFloorEvaluator_init)
       = Some (ExperimentError ''environment'' (OtherException (PyStr ''broken'')))"
proof -
  have h1: "PyNone \<notin> set actions" by (simp add: actions_def)
  have h2: "1 \<le> (1::nat) \<and> (1::nat) \<le> 1000
        \<and> for_loop (vacuum_components RandomAgent_decide) [1..<1]
             (start both_dirty_at_A () CleanFloorEvaluator_init)
            = (start both_dirty_at_A () CleanFloorEvaluator_init, None)
        \<and> env_observable_state (vacuum_components RandomAgent_decide)
             (environment (start both_dirty_at_A () CleanFloorEvaluator_init))
            = Inr \<lparr>obs_agent_location = ''A'', is_dirty = True\<rparr>
        \<and> agent_decide (vacuum_components RandomAgent_decide)
             (agent (start both_dirty_at_A () CleanFloorEvaluator_init))
             \<lparr>obs_agent_location = ''A'', is_dirty = True\<rparr> = (Inr PyNone, ())
        \<and> env_update (vacuum_components RandomAgent_decide) = BasicVacuumWorld_update
        \<and> PyNone \<notin> set actions"
    using h1 first_step_observation(1)[of RandomAgent_decide]
    by (simp add: vacuum_components_def RandomAgent_decide_def)
  have h3: "1 \<le> (1::nat) \<and> (1::nat) \<le> 1000
        \<and> for_loop (raising_world_components (OtherException (PyStr ''broken''))) [1..<1]
             (start both_dirty_at_A () CleanFloorEvaluator_init)
            = (start both_dirty_at_A () CleanFloorEvaluator_init, None)
        \<and> env_observable_state (raising_world_components (OtherException (PyStr ''broken'')))
             (environment (start both_dirty_at_A () CleanFloorEvaluator_init))
            = Inr \<lparr>obs_agent_location = ''A'', is_dirty = True\<rparr>
        \<and> agent_decide (raising_world_components (OtherException (PyStr ''broken'')))
             (agent (start both_dirty_at_A () CleanFloorEvaluator_init))
             \<lparr>obs_agent_location = ''A'', is_dirty = True\<rparr> = (Inr (PyStr ''SUCK''), ())
        \<and> env_update (raising_world_components (OtherException (PyStr ''broken'')))
             (environment (start both_dirty_at_A () CleanFloorEvaluator_init)) (PyStr ''SUCK'')
            = (Some (OtherException (PyStr ''broken'')), both_dirty_at_A)"
    using first_step_observation(2) raising_world_first_step by simp
  from update_fault_classification[of PyNone both_dirty_at_A 1
      "vacuum_components RandomAgent_decide" both_dirty_at_A "()" CleanFloorEvaluator_init
      "start both_dirty_at_A () CleanFloorEvaluator_init"
      "\<lparr>obs_agent_location = ''A'', is_dirty = True\<rparr>" PyNone "()"
      1 "raising_world_components (OtherException (PyStr ''broken''))"
      both_dirty_at_A "()" CleanFloorEvaluator_init
      "start both_dirty_at_A () CleanFloorEvaluator_init"
      "\<lparr>obs_agent_location = ''A'', is_dirty = True\<rparr>" "PyStr ''SUCK''" "()"
      "OtherException (PyStr ''broken'')" both_dirty_at_A]
    h1 h2 h3
  show ?thesis by (simp add: cycles_def start_def)
qed

text \<open>
  The claim as stated fails for an exception that is not an instance of \<open>Exception\<close>: an
  environment whose \<open>update\<close> raises \<open>SystemExit\<close> ends the run with that exception
  itself, and no fault is attributed to the environment.
\<close>

theorem update_fault_counterexample:
  "env_update (raising_world_components (BaseExceptionOnly (PyStr ''SystemExit'')))
       both_dirty_at_A (PyStr ''SUCK'')
     = (Some (BaseExceptionOnly (PyStr ''SystemExit'')), both_dirty_at_A)
   \<and> \<not> isinstance_ValueError (BaseExceptionOnly (PyStr ''SystemExit''))
   \<and> snd (run_experiment (raising_world_components (BaseExceptionOnly (PyStr ''SystemExit'')))
            both_dirty_at_A () CleanFloorEvaluator_init)
       = Some (Propagated (BaseExceptionOnly (PyStr ''SystemExit'')))
   \<and> snd (run_experiment (raising_world_components (BaseExceptionOnly (PyStr ''SystemExit'')))
            both_dirty_at_A () CleanFloorEvaluator_init)
       \<noteq> Some (ExperimentError ''environment'' (BaseExceptionOnly (PyStr ''SystemExit'')))"
proof -
  have u: "env_update (raising_world_components (BaseExceptionOnly (PyStr ''SystemExit'')))
       both_dirty_at_A (PyStr ''SUCK'')
     = (Some (BaseExceptionOnly (PyStr ''SystemExit'')), both_dirty_at_A)"
    by (simp add: raising_world_components_def RaisingWorld_update_def)
  from run_experiment_update_raises[OF _ _ no_steps_before_first first_step_observation(2)
      raising_world_first_step, of "BaseExceptionOnly (PyStr ''SystemExit'')"] u
  show ?thesis by (simp add: handle_update_def)
qed



text \<open>
  C4, as amended. When the environment is constructed and \<open>run_experiment\<close> raises
  \<open>ExperimentError(component, cause)\<close>, \<open>main\<close> logs the decisions made, then the error
  record with the component and the cause, and then the score record with the score
  that the evaluator holds at the fault; the record of completion is not logged. When
  \<open>run_experiment\<close> returns, \<open>main\<close> logs the record of completion and then the score
  record.
\<close>

theorem main_reports_fault_then_score:
  "(environment_class environment_args = Inr env
      \<and> run_experiment c env ag ev = (s, Some (ExperimentError component cause)) \<longrightarrow>
    main c environment_class evaluator_score environment_args ag ev
      = (MSG_HELLO # map (\<lambda>(t, d). MSG_AGENT_DECISION t d) (decision_log s)
           @ [MSG_EXPERIMENT_ERROR component cause, MSG_SCORE (evaluator_score (evaluator s))],
         Returned None)
    \<and> MSG_COMPLETE \<notin> set (fst (main c environment_class evaluator_score environment_args ag ev)))
   \<and> (environment_class environment_args = Inr env
      \<and> run_experiment c env ag ev = (s, None) \<longrightarrow>
    main c environment_class evaluator_score environment_args ag ev
      = (MSG_HELLO # map (\<lambda>(t, d). MSG_AGENT_DECISION t d) (decision_log s)
           @ [MSG_COMPLETE, MSG_SCORE (evaluator_score (evaluator s))],
         Returned None))"
  by (auto simp: main_def)

theorem main_reports_fault_then_score_witness:
  "BasicVacuumWorld_class (default_agent_location, default_dirt_status) = Inr both_dirty_at_A
   \<and> main (vacuum_components RandomAgent_decide) BasicVacuumWorld_class score
        (default_agent_location, default_dirt_status) () CleanFloorEvaluator_init
       = ([MSG_HELLO, MSG_AGENT_DECISION 1 PyNone,
           MSG_EXPERIMENT_ERROR ''agent'' (ValueError PyNone), MSG_SCORE 0],
          Returned None)
   \<and> snd (run_experiment (vacuum_components SuckyAgent_decide) both_dirty_at_A ()
            CleanFloorEvaluator_init) = None
   \<and> last (fst (main (vacuum_components SuckyAgent_decide) BasicVacuumWorld_class score
                  (default_agent_location, default_dirt_status) () CleanFloorEvaluator_init))
       = MSG_SCORE 1000"
proof -
  have h: "BasicVacuumWorld_class (default_agent_location, default_dirt_status) = Inr both_dirty_at_A"
    by (simp add: BasicVacuumWorld_class_def default_construction)
  from sucky_run obtain s' where
    run: "run_experiment (vacuum_components SuckyAgent_decide) both_dirty_at_A ()
            CleanFloorEvaluator_init = (s', None)"
    and sc: "score (evaluator s') = 1000"
    by blast
  from main_reports_fault_then_score[of BasicVacuumWorld_class
      "(default_agent_location, default_dirt_status)" both_dirty_at_A
      "vacuum_components RandomAgent_decide" "()" CleanFloorEvaluator_init _ "''agent''"
      "ValueError PyNone" score] h random_agent_run
  have 1: "main (vacuum_components RandomAgent_decide) BasicVacuumWorld_class score
        (default_agent_location, default_dirt_status) () CleanFloorEvaluator_init
       = ([MSG_HELLO, MSG_AGENT_DECISION 1 PyNone,
           MSG_EXPERIMENT_ERROR ''agent'' (ValueError PyNone), MSG_SCORE 0],
          Returned None)"
    by (simp add: CleanFloorEvaluator_init_def)
  from main_reports_fault_then_score[of BasicVacuumWorld_class
      "(default_agent_location, default_dirt_status)" both_dirty_at_A
      "vacuum_components SuckyAgent_decide" "()" CleanFloorEvaluator_init s' _ _ score] h run sc
  have 2: "last (fst (main (vacuum_components SuckyAgent_decide) BasicVacuumWorld_class score
                  (default_agent_location, default_dirt_status) () CleanFloorEvaluator_init))
       = MSG_SCORE 1000"
    by simp
  from h 1 2 run show ?thesis by simp
qed

text \<open>
  The claim as stated fails: with \<open>RandomAgent\<close>, whose \<open>decide\<close> returns \<open>None\<close>, the
  run ends at the first step with a fault of the agent, and the output of \<open>main\<close> still
  ends with a score record.
\<close>

theorem main_score_after_fault_counterexample:
  "snd (run_experiment (vacuum_components RandomAgent_decide) both_dirty_at_A ()
          CleanFloorEvaluator_init)
     = Some (ExperimentError ''agent'' (ValueError PyNone))
   \<and> fst (main (vacuum_components RandomAgent_decide) BasicVacuumWorld_class score
        (default_agent_location, default_dirt_status) () CleanFloorEvaluator_init)
     = [MSG_HELLO, MSG_AGENT_DECISION 1 PyNone,
        MSG_EXPERIMENT_ERROR ''agent'' (ValueError PyNone), MSG_SCORE 0]
   \<and> MSG_SCORE 0 \<in> set (fst (main (vacuum_components RandomAgent_decide) BasicVacuumWorld_class
        score (default_agent_location, default_dirt_status) () CleanFloorEvaluator_init))"
proof -
  have "main (vacuum_components RandomAgent_decide) BasicVacuumWorld_class score
        (default_agent_location, default_dirt_status) () CleanFloorEvaluator_init
     = ([MSG_HELLO, MSG_AGENT_DECISION 1 PyNone,
         MSG_EXPERIMENT_ERROR ''agent'' (ValueError PyNone),
         MSG_SCORE (score CleanFloorEvaluator_init)], Returned None)"
    by (simp add: main_def BasicVacuumWorld_class_def default_construction random_agent_run)
  moreover have "score CleanFloorEvaluator_init = 0"
    by (simp add: CleanFloorEvaluator_init_def)
  ultimately show ?thesis
    by (simp add: random_agent_run)
qed

text \<open>
  C5. For every sequence of environment states passed to \<open>CleanFloorEvaluator.update\<close> in
  order, the score afterwards is the sum, over the calls, of the number of \<open>False\<close> values
  in the state's \<open>dirt_status\<close>: from a new evaluator the score is that sum, from any
  evaluator it is the earlier score plus that sum. Further calls never lower the score,
  and \<open>update\<close> never raises.
\<close>

theorem evaluator_score_is_sum:
  "score (CleanFloorEvaluator_update_all CleanFloorEvaluator_init sts)
     = (\<Sum>st\<leftarrow>sts. int (clean_count st))
   \<and> score (CleanFloorEvaluator_update_all self sts)
       = score self + (\<Sum>st\<leftarrow>sts. int (clean_count st))
   \<and> score (CleanFloorEvaluator_update_all self sts)
       \<le> score (CleanFloorEvaluator_update_all self (sts @ later))
   \<and> fst (CleanFloorEvaluator_update self st) = None"
proof -
  have "0 \<le> (\<Sum>st\<leftarrow>later. int (clean_count st))"
    by (rule sum_list_nonneg) auto
  then show ?thesis
    by (simp add: update_all_score CleanFloorEvaluator_init_def CleanFloorEvaluator_update_def)
qed

text \<open>
  C6. The default arguments construct the environment with the agent at \<open>A\<close> and both
  locations dirty. The run of \<open>SuckyAgent\<close> in it with \<open>CleanFloorEvaluator\<close> returns
  after all 1000 steps with the score 1000, location \<open>A\<close> clean, location \<open>B\<close> dirty and
  the agent at \<open>A\<close>; the last record that \<open>main\<close> logs is the score 1000. After each
  number \<open>n\<close> of steps from 1 on, location \<open>A\<close> is clean, location \<open>B\<close> is dirty, the agent
  is at \<open>A\<close> and the score is \<open>n\<close>. The run is a function of its arguments, so two such
  runs give the same score.
\<close>

theorem sucky_agent_scores_1000:
  "BasicVacuumWorld_init default_agent_location default_dirt_status = Inr both_dirty_at_A
   \<and> snd (run_experiment (vacuum_components SuckyAgent_decide) both_dirty_at_A ()
            CleanFloorEvaluator_init) = None
   \<and> score (evaluator (fst (run_experiment (vacuum_components SuckyAgent_decide) both_dirty_at_A ()
            CleanFloorEvaluator_init))) = 1000
   \<and> environment (fst (run_experiment (vacuum_components SuckyAgent_decide) both_dirty_at_A ()
            CleanFloorEvaluator_init))
       = \<lparr>agent_location = ''A'', dirt_status = [(''A'', False), (''B'', True)]\<rparr>
   \<and> last (fst (main (vacuum_components SuckyAgent_decide) BasicVacuumWorld_class score
                  (default_agent_location, default_dirt_status) () CleanFloorEvaluator_init))
       = MSG_SCORE 1000
   \<and> (1 \<le> n \<longrightarrow>
        environment (fst (for_loop (vacuum_components SuckyAgent_decide) [1..<Suc n]
              (start both_dirty_at_A () CleanFloorEvaluator_init)))
          = \<lparr>agent_location = ''A'', dirt_status = [(''A'', False), (''B'', True)]\<rparr>
        \<and> score (evaluator (fst (for_loop (vacuum_components SuckyAgent_decide) [1..<Suc n]
              (start both_dirty_at_A () CleanFloorEvaluator_init)))) = int n)"
proof -
  from sucky_run obtain s' where
    run: "run_experiment (vacuum_components SuckyAgent_decide) both_dirty_at_A ()
            CleanFloorEvaluator_init = (s', None)"
    and env: "environment s' = \<lparr>agent_location = ''A'', dirt_status = [(''A'', False), (''B'', True)]\<rparr>"
    and sc: "score (evaluator s') = 1000"
    by blast
  have m: "main (vacuum_components SuckyAgent_decide) BasicVacuumWorld_class score
          (default_agent_location, default_dirt_status) () CleanFloorEvaluator_init
        = (MSG_HELLO # map (\<lambda>(t, d). MSG_AGENT_DECISION t d) (decision_log s')
             @ [MSG_COMPLETE, MSG_SCORE 1000], Returned None)"
    by (simp add: main_def BasicVacuumWorld_class_def default_construction run sc)
  have steps: "1 \<le> n \<longrightarrow>
        environment (fst (for_loop (vacuum_components SuckyAgent_decide) [1..<Suc n]
              (start both_dirty_at_A () CleanFloorEvaluator_init)))
          = \<lparr>agent_location = ''A'', dirt_status = [(''A'', False), (''B'', True)]\<rparr>
        \<and> score (evaluator (fst (for_loop (vacuum_components SuckyAgent_decide) [1..<Suc n]
              (start both_dirty_at_A () CleanFloorEvaluator_init)))) = int n"
    using sucky_steps[of n] by auto
  from run env sc default_construction m have
    "BasicVacuumWorld_init default_agent_location default_dirt_status = Inr both_dirty_at_A
   \<and> snd (run_experiment (vacuum_components SuckyAgent_decide) both_dirty_at_A ()
            CleanFloorEvaluator_init) = None
   \<and> score (evaluator (fst (run_experiment (vacuum_components SuckyAgent_decide) both_dirty_at_A ()
            CleanFloorEvaluator_init))) = 1000
   \<and> environment (fst (run_experiment (vacuum_components SuckyAgent_decide) both_dirty_at_A ()
            CleanFloorEvaluator_init))
       = \<lparr>agent_location = ''A'', dirt_status = [(''A'', False), (''B'', True)]\<rparr>
   \<and> last (fst (main (vacuum_components SuckyAgent_decide) BasicVacuumWorld_class score
                  (default_agent_location, default_dirt_status) () CleanFloorEvaluator_init))
       = MSG_SCORE 1000"
    by simp
  with steps show ?thesis by blast
qed

theorem sucky_agent_scores_1000_witness:
  "environment (fst (for_loop (vacuum_components SuckyAgent_decide) [1..<Suc 3]
              (start both_dirty_at_A () CleanFloorEvaluator_init)))
          = \<lparr>agent_location = ''A'', dirt_status = [(''A'', False), (''B'', True)]\<rparr>
   \<and> score (evaluator (fst (for_loop (vacuum_components SuckyAgent_decide) [1..<Suc 3]
              (start both_dirty_at_A () CleanFloorEvaluator_init)))) = 3
   \<and> score (evaluator (fst (run_experiment (vacuum_components SuckyAgent_decide) both_dirty_at_A ()
            CleanFloorEvaluator_init))) = 1000"
  using sucky_agent_scores_1000[of 3] by simp

text \<open>
  C7. In every reachable state of \<open>BasicVacuumWorld\<close>, \<open>observable_state\<close> returns the
  agent's location and the dirt status of that location, and nothing else. Two states
  with the agent at the same location and the same dirt status there give the same
  observation, whatever the dirt status of the other location is.
\<close>

theorem observation_shows_only_current_location:
  "(reachable self \<longrightarrow>
      (\<exists>d. map_of (dirt_status self) (agent_location self) = Some d
         \<and> BasicVacuumWorld_observable_state self
             = Inr \<lparr>obs_agent_location = agent_location self, is_dirty = d\<rparr>))
   \<and> (agent_location self = agent_location other
        \<and> map_of (dirt_status self) (agent_location self)
            = map_of (dirt_status other) (agent_location other) \<longrightarrow>
      BasicVacuumWorld_observable_state self = BasicVacuumWorld_observable_state other)"
  by (auto simp: BasicVacuumWorld_observable_state_def dest: reachable_observable
      split: option.splits)

theorem observation_witness:
  "reachable both_dirty_at_A
   \<and> BasicVacuumWorld_observable_state both_dirty_at_A
       = Inr \<lparr>obs_agent_location = ''A'', is_dirty = True\<rparr>
   \<and> BasicVacuumWorld_observable_state both_dirty_at_A
       = BasicVacuumWorld_observable_state
           \<lparr>agent_location = ''A'', dirt_status = [(''A'', True), (''B'', False)]\<rparr>"
proof -
  have r: "reachable both_dirty_at_A"
    using default_construction by (rule reachable.constructed)
  have a: "agent_location both_dirty_at_A
        = agent_location \<lparr>agent_location = ''A'', dirt_status = [(''A'', True), (''B'', False)]\<rparr>
      \<and> map_of (dirt_status both_dirty_at_A) (agent_location both_dirty_at_A)
        = map_of (dirt_status \<lparr>agent_location = ''A'', dirt_status = [(''A'', True), (''B'', False)]\<rparr>)
            (agent_location \<lparr>agent_location = ''A'', dirt_status = [(''A'', True), (''B'', False)]\<rparr>)"
    by (simp add: both_dirty_at_A_def)
  from observation_shows_only_current_location[of both_dirty_at_A
      "\<lparr>agent_location = ''A'', dirt_status = [(''A'', True), (''B'', False)]\<rparr>"] r a
  show ?thesis by (auto simp: both_dirty_at_A_def)
qed

text \<open>
  C8. With the agent at \<open>A\<close>, \<open>update('SUCK')\<close> returns without raising, sets
  \<open>dirt_status['A']\<close> to clean, and leaves \<open>agent_location\<close>, \<open>dirt_status['B']\<close> and the
  entry of every other key as they were.
\<close>

theorem suck_at_A_changes_only_A:
  assumes "agent_location self = ''A''"
  shows "fst (BasicVacuumWorld_update self (PyStr ''SUCK'')) = None
    \<and> agent_location (snd (BasicVacuumWorld_update self (PyStr ''SUCK''))) = agent_location self
    \<and> map_of (dirt_status (snd (BasicVacuumWorld_update self (PyStr ''SUCK'')))) ''A'' = Some False
    \<and> map_of (dirt_status (snd (BasicVacuumWorld_update self (PyStr ''SUCK'')))) ''B''
        = map_of (dirt_status self) ''B''
    \<and> (\<forall>k. k \<noteq> ''A'' \<longrightarrow>
          map_of (dirt_status (snd (BasicVacuumWorld_update self (PyStr ''SUCK'')))) k
            = map_of (dirt_status self) k)"
  using assms by (simp add: BasicVacuumWorld_update_def update_conv')

theorem suck_at_A_changes_only_A_witness:
  "agent_location both_dirty_at_A = ''A''
   \<and> BasicVacuumWorld_update both_dirty_at_A (PyStr ''SUCK'')
       = (None, \<lparr>agent_location = ''A'', dirt_status = [(''A'', False), (''B'', True)]\<rparr>)
   \<and> map_of (dirt_status (snd (BasicVacuumWorld_update both_dirty_at_A (PyStr ''SUCK'')))) ''B''
        = map_of (dirt_status both_dirty_at_A) ''B''"
proof -
  have h: "agent_location both_dirty_at_A = ''A''" by (simp add: both_dirty_at_A_def)
  have e: "BasicVacuumWorld_update both_dirty_at_A (PyStr ''SUCK'')
       = (None, \<lparr>agent_location = ''A'', dirt_status = [(''A'', False), (''B'', True)]\<rparr>)"
    by (simp add: both_dirty_at_A_def BasicVacuumWorld_update_def)
  from suck_at_A_changes_only_A[OF h] h e show ?thesis by simp
qed

text \<open>
  C9. When the argument \<open>agent_location\<close> is not the one-element list of \<open>A\<close> or of \<open>B\<close>,
  or a token of \<open>dirt_status\<close>, lowered, is in neither \<open>DIRTY_VALUES\<close> nor
  \<open>CLEAN_VALUES\<close>, the constructor raises \<open>ValueError\<close>, and \<open>main\<close> logs the error of
  the environment's parameter and returns 1: no step runs and no decision is logged.
\<close>

theorem bad_construction_rejected:
  assumes "agent_location_arg \<notin> {[''A''], [''B'']}
     \<or> (\<exists>token\<in>set dirt_status_arg. lower token \<notin> set DIRTY_VALUES \<union> set CLEAN_VALUES)"
  shows "\<exists>a. BasicVacuumWorld_init agent_location_arg dirt_status_arg = Inl (ValueError a)
     \<and> main c BasicVacuumWorld_class evaluator_score (agent_location_arg, dirt_status_arg) ag ev
         = ([MSG_HELLO, MSG_ENVIRONMENT_INIT_ERROR a], Returned (Some 1))"
proof -
  from init_bad[OF assms] obtain a
    where "BasicVacuumWorld_init agent_location_arg dirt_status_arg = Inl (ValueError a)" by blast
  then show ?thesis by (simp add: main_def BasicVacuumWorld_class_def)
qed

theorem bad_construction_rejected_witness:
  "[''C''] \<notin> {[''A''], [''B'']}
   \<and> BasicVacuumWorld_init [''C''] default_dirt_status = Inl (ValueError (PyStr ''C''))
   \<and> main (vacuum_components SuckyAgent_decide) BasicVacuumWorld_class score
        ([''C''], default_dirt_status) () CleanFloorEvaluator_init
       = ([MSG_HELLO, MSG_ENVIRONMENT_INIT_ERROR (PyStr ''C'')], Returned (Some 1))
   \<and> lower ''Maybe'' \<notin> set DIRTY_VALUES \<union> set CLEAN_VALUES
   \<and> BasicVacuumWorld_init [''B''] [''DIRTY'', ''Maybe'']
       = Inl (ValueError (PyStr ''Invalid dirt status string: maybe''))
   \<and> main (vacuum_components SuckyAgent_decide) BasicVacuumWorld_class score
        ([''B''], [''DIRTY'', ''Maybe'']) () CleanFloorEvaluator_init
       = ([MSG_HELLO, MSG_ENVIRONMENT_INIT_ERROR (PyStr ''Invalid dirt status string: maybe'')],
          Returned (Some 1))"
proof -
  have h1: "[''C''] \<notin> {[''A''], [''B'']}" by simp
  have m: "lower ''Maybe'' \<notin> set DIRTY_VALUES \<union> set CLEAN_VALUES"
    by (simp add: lower_Maybe DIRTY_VALUES_def CLEAN_VALUES_def)
  then have h2: "[''B''] \<notin> {[''A''], [''B'']}
     \<or> (\<exists>token\<in>set [''DIRTY'', ''Maybe'']. lower token \<notin> set DIRTY_VALUES \<union> set CLEAN_VALUES)"
    by simp
  from bad_construction_rejected[of "[''C'']" default_dirt_status
      "vacuum_components SuckyAgent_decide" score "()" CleanFloorEvaluator_init] h1 init_C
  have 1: "main (vacuum_components SuckyAgent_decide) BasicVacuumWorld_class score
        ([''C''], default_dirt_status) () CleanFloorEvaluator_init
       = ([MSG_HELLO, MSG_ENVIRONMENT_INIT_ERROR (PyStr ''C'')], Returned (Some 1))"
    by auto
  from bad_construction_rejected[OF h2, of
      "vacuum_components SuckyAgent_decide" score "()" CleanFloorEvaluator_init] init_Maybe
  have 2: "main (vacuum_components SuckyAgent_decide) BasicVacuumWorld_class score
        ([''B''], [''DIRTY'', ''Maybe'']) () CleanFloorEvaluator_init
       = ([MSG_HELLO, MSG_ENVIRONMENT_INIT_ERROR (PyStr ''Invalid dirt status string: maybe'')],
          Returned (Some 1))"
    by auto
  from h1 init_C 1 m init_Maybe 2 show ?thesis by blast
qed

text \<open>
  C10. \<open>update\<close> raises exactly on the values outside \<open>LEFT\<close>, \<open>RIGHT\<close>, \<open>SUCK\<close>, and the
  object after the raise is the object before the call. In the runner, a step whose
  decision is rejected ends the run with the environment and the evaluator as they were
  before the step.
\<close>

theorem rejected_action_leaves_state:
  "(action \<notin> set actions \<longrightarrow>
      BasicVacuumWorld_update self action = (Some (ValueError action), self))
   \<and> (fst (BasicVacuumWorld_update self action) \<noteq> None \<longrightarrow>
      action \<notin> set actions \<and> snd (BasicVacuumWorld_update self action) = self)
   \<and> (env_update c = BasicVacuumWorld_update
        \<and> env_observable_state c (environment s) = Inr obs
        \<and> agent_decide c (agent s) obs = (Inr action, ag)
        \<and> action \<notin> set actions \<longrightarrow>
      snd (loop_body c t s) = Some (ExperimentError ''agent'' (ValueError action))
      \<and> environment (fst (loop_body c t s)) = environment s
      \<and> evaluator (fst (loop_body c t s)) = evaluator s)"
proof (intro conjI impI)
  assume "action \<notin> set actions"
  then show "BasicVacuumWorld_update self action = (Some (ValueError action), self)"
    by (rule update_rejects)
next
  assume r: "fst (BasicVacuumWorld_update self action) \<noteq> None"
  then show o: "action \<notin> set actions" by (rule update_raises_only_outside)
  from update_rejects[OF o] show "snd (BasicVacuumWorld_update self action) = self" by simp
next
  assume a: "env_update c = BasicVacuumWorld_update
        \<and> env_observable_state c (environment s) = Inr obs
        \<and> agent_decide c (agent s) obs = (Inr action, ag)
        \<and> action \<notin> set actions"
  then have u: "env_update c (environment s) action = (Some (ValueError action), environment s)"
    by (simp add: update_rejects)
  from a have o: "env_observable_state c (environment s) = Inr obs"
    and d: "agent_decide c (agent s) obs = (Inr action, ag)" by simp_all
  have b: "loop_body c t s =
           (s\<lparr>agent := ag, decision_log := decision_log s @ [(t, action)],
              calls := calls s @ [Decide, Update], environment := environment s\<rparr>,
            Some (handle_update (ValueError action)))"
    by (rule loop_body_update_raises[OF o d u])
  from b show "snd (loop_body c t s) = Some (ExperimentError ''agent'' (ValueError action))"
    by (simp add: handle_update_def)
  from b show "environment (fst (loop_body c t s)) = environment s" by simp
  from b show "evaluator (fst (loop_body c t s)) = evaluator s" by simp
qed

theorem rejected_action_leaves_state_witness:
  "PyNone \<notin> set actions
   \<and> BasicVacuumWorld_update both_dirty_at_A PyNone = (Some (ValueError PyNone), both_dirty_at_A)
   \<and> snd (loop_body (vacuum_components RandomAgent_decide) 1
            (start both_dirty_at_A () CleanFloorEvaluator_init))
       = Some (ExperimentError ''agent'' (ValueError PyNone))
   \<and> environment (fst (loop_body (vacuum_components RandomAgent_decide) 1
            (start both_dirty_at_A () CleanFloorEvaluator_init))) = both_dirty_at_A"
proof -
  have h1: "PyNone \<notin> set actions" by (simp add: actions_def)
  have h2: "env_update (vacuum_components RandomAgent_decide) = BasicVacuumWorld_update
        \<and> env_observable_state (vacuum_components RandomAgent_decide)
             (environment (start both_dirty_at_A () CleanFloorEvaluator_init))
           = Inr \<lparr>obs_agent_location = ''A'', is_dirty = True\<rparr>
        \<and> agent_decide (vacuum_components RandomAgent_decide)
             (agent (start both_dirty_at_A () CleanFloorEvaluator_init))
             \<lparr>obs_agent_location = ''A'', is_dirty = True\<rparr> = (Inr PyNone, ())
        \<and> PyNone \<notin> set actions"
    by (simp add: vacuum_components_def start_def both_dirty_at_A_def actions_def
        BasicVacuumWorld_observable_state_def RandomAgent_decide_def)
  from rejected_action_leaves_state[of PyNone both_dirty_at_A
      "vacuum_components RandomAgent_decide" "start both_dirty_at_A () CleanFloorEvaluator_init"
      "\<lparr>obs_agent_location = ''A'', is_dirty = True\<rparr>" "()" 1] h1 h2
  show ?thesis by (simp add: start_def)
qed


end
